theory Spec2Isabelle
  imports Complex_Main "HOL-Library.Word"
begin

section \<open>Ridge regression: the estimator of \<^verbatim>\<open>notebooks/ridge_regression.ipynb\<close>\<close>

text \<open>
  The notebook defines a class \<^verbatim>\<open>Ridge\<close> with a constructor, a static helper
  \<^verbatim>\<open>_x_bar\<close> and a method \<^verbatim>\<open>fit\<close>; the driver cells build data, call
  \<^verbatim>\<open>fit\<close> and read the attribute \<^verbatim>\<open>_coeff_hat\<close>.

  The code computes in the machine arithmetic of numpy: float64, which rounds, absorbs
  and overflows, and int64 inside \<^verbatim>\<open>np.square\<close> when it is given an integer. The
  model commits to none of the rounding: the float64 values are a type parameter \<open>'f\<close>
  and every float64 operation the code performs, the LU-based \<^verbatim>\<open>np.linalg.inv\<close>
  included, is a field of a record of operations, of which nothing is assumed. What is
  proved for every such record holds of the code whatever its rounding. An int64 is a
  word of 64 bits, whose arithmetic wraps around. A one-dimensional array is a list, a
  two-dimensional array is the list of its rows; arrays with no row never arise in
  \<^verbatim>\<open>fit\<close>, because \<^verbatim>\<open>np.vstack\<close> rejects an empty sequence. Every exception the
  code can raise is a value of the type \<open>error\<close>.
\<close>

subsection \<open>Scalars and float64 operations\<close>

text \<open>A scalar handed to the class is an int64 (a Python \<^verbatim>\<open>int\<close> of that range, which
  numpy takes as an int64, or an \<^verbatim>\<open>np.int64\<close>) or a float64 (a Python \<^verbatim>\<open>float\<close> or
  an \<^verbatim>\<open>np.float64\<close>).\<close>

datatype 'f scalar = Int64 "64 word" | Float64 'f

record 'f floats =
  f_zero :: 'f  \<comment> \<open>\<^verbatim>\<open>0.0\<close>\<close>
  f_one :: 'f  \<comment> \<open>\<^verbatim>\<open>1.0\<close>\<close>
  of_int64 :: "int \<Rightarrow> 'f"  \<comment> \<open>conversion of an int64 to float64\<close>
  f_add :: "'f \<Rightarrow> 'f \<Rightarrow> 'f"  \<comment> \<open>float64 \<^verbatim>\<open>+\<close>\<close>
  f_mul :: "'f \<Rightarrow> 'f \<Rightarrow> 'f"  \<comment> \<open>float64 \<^verbatim>\<open>*\<close>\<close>
  f_square :: "'f \<Rightarrow> 'f"  \<comment> \<open>\<^verbatim>\<open>np.square\<close> and \<^verbatim>\<open>**2\<close> on a float64\<close>
  f_dot :: "'f list \<Rightarrow> 'f list \<Rightarrow> 'f"  \<comment> \<open>the inner product \<^verbatim>\<open>np.matmul\<close> computes for one entry\<close>
  lu_singular :: "'f list list \<Rightarrow> bool"  \<comment> \<open>the factorization in \<^verbatim>\<open>np.linalg.inv\<close> meets an exactly zero pivot\<close>
  lu_inverse :: "'f list list \<Rightarrow> nat \<Rightarrow> nat \<Rightarrow> 'f"  \<comment> \<open>entry \<open>(i, j)\<close> of the array \<^verbatim>\<open>np.linalg.inv\<close> returns\<close>

datatype error =
    ValueError_concatenate  \<comment> \<open>\<^verbatim>\<open>np.vstack\<close>: need at least one array / row lengths differ\<close>
  | ValueError_matmul       \<comment> \<open>\<^verbatim>\<open>np.matmul\<close>: mismatch in the core dimension\<close>
  | LinAlgError             \<comment> \<open>\<^verbatim>\<open>np.linalg.inv\<close>: singular or non-square matrix\<close>
  | AttributeError          \<comment> \<open>reading an attribute that was never assigned\<close>
  | IndexError              \<comment> \<open>index out of bounds\<close>
  | ValueError_broadcast    \<comment> \<open>operands could not be broadcast together\<close>

text \<open>\<^verbatim>\<open>np.square\<close> works in the dtype of its argument: the square of an int64 is the
  int64 product, which wraps around. A scalar that meets a float64 array (in
  \<^verbatim>\<open>np.hstack\<close> with \<^verbatim>\<open>[1.0]\<close>, in a product with a float64 array) is converted to
  float64, an int64 from its signed value.\<close>

definition square :: "'f floats \<Rightarrow> 'f scalar \<Rightarrow> 'f scalar" where
  "square fl x = (case x of Int64 i \<Rightarrow> Int64 (i * i) | Float64 a \<Rightarrow> Float64 (f_square fl a))"

definition to_f64 :: "'f floats \<Rightarrow> 'f scalar \<Rightarrow> 'f" where
  "to_f64 fl x = (case x of Int64 i \<Rightarrow> of_int64 fl (sint i) | Float64 a \<Rightarrow> a)"

subsection \<open>The numpy operations used by the class\<close>

text \<open>\<^verbatim>\<open>np.atleast_1d\<close> of a scalar, and \<^verbatim>\<open>np.atleast_2d\<close> of a scalar and of a
  one-dimensional array.\<close>

definition atleast_1d :: "'a \<Rightarrow> 'a list" where
  "atleast_1d x = [x]"

definition atleast_2d_scalar :: "'a \<Rightarrow> 'a list list" where
  "atleast_2d_scalar y = [[y]]"

definition atleast_2d :: "'a list \<Rightarrow> 'a list list" where
  "atleast_2d r = [r]"

text \<open>\<^verbatim>\<open>np.hstack\<close> of one-dimensional arrays concatenates them.\<close>

definition hstack :: "'a list list \<Rightarrow> 'a list" where
  "hstack rs = concat rs"

definition ncols :: "'a list list \<Rightarrow> nat" where
  "ncols A = (case A of [] \<Rightarrow> 0 | r # _ \<Rightarrow> length r)"

text \<open>\<^verbatim>\<open>np.vstack\<close> of two-dimensional blocks (each argument after
  \<^verbatim>\<open>np.atleast_2d\<close>): it raises on an empty sequence and when the blocks disagree on the
  number of columns; otherwise the rows follow each other in the order of the sequence.\<close>

definition vstack :: "'a list list list \<Rightarrow> error + 'a list list" where
  "vstack blocks =
     (case blocks of
        [] \<Rightarrow> Inl ValueError_concatenate
      | b # bs \<Rightarrow>
          if list_all (\<lambda>c. ncols c = ncols b) bs then Inr (concat blocks)
          else Inl ValueError_concatenate)"

text \<open>\<^verbatim>\<open>np.transpose\<close> of an array with at least one row.\<close>

fun transpose_np :: "'a list list \<Rightarrow> 'a list list" where
  "transpose_np [] = []"
| "transpose_np [r] = map (\<lambda>v. [v]) r"
| "transpose_np (r # rs) = map2 (#) r (transpose_np rs)"

text \<open>The matrix product: each entry is the inner product of a row of \<open>A\<close> with a column
  of \<open>B\<close>, as the library computes it; \<^verbatim>\<open>np.matmul\<close> checks the inner dimensions
  first.\<close>

definition mat_mul :: "'f floats \<Rightarrow> 'f list list \<Rightarrow> 'f list list \<Rightarrow> 'f list list" where
  "mat_mul fl A B = map (\<lambda>r. map (\<lambda>c. f_dot fl r c) (transpose_np B)) A"

definition matmul :: "'f floats \<Rightarrow> 'f list list \<Rightarrow> 'f list list \<Rightarrow> error + 'f list list" where
  "matmul fl A B = (if ncols A = length B then Inr (mat_mul fl A B) else Inl ValueError_matmul)"

definition identity :: "'f floats \<Rightarrow> nat \<Rightarrow> 'f list list" where
  "identity fl n = map (\<lambda>i. map (\<lambda>j. if i = j then f_one fl else f_zero fl) [0..<n]) [0..<n]"

text \<open>A scalar times an array, and the sum of two arrays of the same shape (in
  \<^verbatim>\<open>fit\<close> both operands of \<^verbatim>\<open>+\<close> are square of the same size, so nothing is
  broadcast).\<close>

definition smul :: "'f floats \<Rightarrow> 'f \<Rightarrow> 'f list list \<Rightarrow> 'f list list" where
  "smul fl c A = map (map (f_mul fl c)) A"

definition madd :: "'f floats \<Rightarrow> 'f list list \<Rightarrow> 'f list list \<Rightarrow> 'f list list" where
  "madd fl A B = map2 (map2 (f_add fl)) A B"

text \<open>\<^verbatim>\<open>np.linalg.inv\<close> raises \<^verbatim>\<open>LinAlgError\<close> on a matrix that is not square and when
  its LU factorization meets an exactly zero pivot; otherwise it returns an array of the
  shape of its argument, whatever that array is worth.\<close>

definition is_square :: "'a list list \<Rightarrow> bool" where
  "is_square A = list_all (\<lambda>r. length r = length A) A"

definition linalg_inv :: "'f floats \<Rightarrow> 'f list list \<Rightarrow> error + 'f list list" where
  "linalg_inv fl A =
     (if \<not> is_square A then Inl LinAlgError
      else if lu_singular fl A then Inl LinAlgError
      else Inr (map (\<lambda>i. map (\<lambda>j. lu_inverse fl A i j) [0..<length A]) [0..<length A]))"

subsection \<open>The class \<^verbatim>\<open>Ridge\<close>\<close>

text \<open>An instance has the attribute \<^verbatim>\<open>_lambda\<close> from construction on; the attribute
  \<^verbatim>\<open>_coeff_hat\<close> exists only once \<^verbatim>\<open>fit\<close> has assigned it.\<close>

record 'f ridge =
  lambda :: "'f scalar"
  coeff_hat :: "'f list list option"

datatype 'f pyval = PyNone | PyArray "'f list list"

definition Ridge_init :: "'f scalar \<Rightarrow> 'f ridge" where
  "Ridge_init lam = \<lparr>lambda = lam, coeff_hat = None\<rparr>"

text \<open>\<^verbatim>\<open>_x_bar\<close> is applied to the elements of \<^verbatim>\<open>x_train\<close>, which are scalars:
  \<^verbatim>\<open>np.hstack(([1.0], x, np.square(x)))\<close>, a float64 array.\<close>

definition x_bar :: "'f floats \<Rightarrow> 'f scalar \<Rightarrow> 'f list" where
  "x_bar fl x =
     hstack [[f_one fl], map (to_f64 fl) (atleast_1d x), map (to_f64 fl) (atleast_1d (square fl x))]"

text \<open>The right-hand side of the assignment to \<^verbatim>\<open>self._coeff_hat\<close>: every statement of
  the body of \<^verbatim>\<open>fit\<close> in order, the first exception ending the computation.\<close>

definition fit_coeff ::
  "'f floats \<Rightarrow> 'f scalar \<Rightarrow> 'f scalar list \<Rightarrow> 'f scalar list \<Rightarrow> error + 'f list list" where
  "fit_coeff fl lam x_train y_train =
     (case vstack (map (\<lambda>x. atleast_2d (x_bar fl x)) x_train) of
        Inl e \<Rightarrow> Inl e
      | Inr X \<Rightarrow>
     (case vstack (map (\<lambda>y. atleast_2d_scalar (to_f64 fl y)) y_train) of
        Inl e \<Rightarrow> Inl e
      | Inr Y \<Rightarrow>
     (let XT = transpose_np X in
      case matmul fl XT X of
        Inl e \<Rightarrow> Inl e
      | Inr G \<Rightarrow>
     (let XTX = madd fl G (smul fl (to_f64 fl lam) (identity fl (ncols X))) in
      case linalg_inv fl XTX of
        Inl e \<Rightarrow> Inl e
      | Inr XI \<Rightarrow>
     (case matmul fl XI XT of
        Inl e \<Rightarrow> Inl e
      | Inr P \<Rightarrow> matmul fl P Y)))))"

text \<open>\<^verbatim>\<open>fit\<close> has no \<^verbatim>\<open>return\<close> statement: a call that completes evaluates to
  \<^verbatim>\<open>None\<close>. The assignment is the last statement, so a call that raises leaves the
  instance as it was.\<close>

definition fit ::
  "'f floats \<Rightarrow> 'f ridge \<Rightarrow> 'f scalar list \<Rightarrow> 'f scalar list \<Rightarrow> (error + 'f pyval) \<times> 'f ridge" where
  "fit fl self x_train y_train =
     (case fit_coeff fl (lambda self) x_train y_train of
        Inl e \<Rightarrow> (Inl e, self)
      | Inr C \<Rightarrow> (Inr PyNone, self\<lparr>coeff_hat := Some C\<rparr>))"

subsection \<open>Reading the coefficients: the prediction cell\<close>

text \<open>
  The class has no method for prediction. The cell ``Plot test data and model
  predictions'' evaluates, for the float64 array \<^verbatim>\<open>x_test_sorted\<close>,
  \<^verbatim>\<open>ridge._coeff_hat[0] + ridge._coeff_hat[1]*x_test_sorted + ridge._coeff_hat[2]*x_test_sorted**2\<close>.
  Reading \<^verbatim>\<open>_coeff_hat\<close> on an instance that never assigned it raises
  \<^verbatim>\<open>AttributeError\<close>; indexing a two-dimensional array yields a row; arithmetic on
  one-dimensional arrays broadcasts an operand of length one.
\<close>

definition bind_err :: "error + 'a \<Rightarrow> ('a \<Rightarrow> error + 'b) \<Rightarrow> error + 'b" where
  "bind_err m f = (case m of Inl e \<Rightarrow> Inl e | Inr v \<Rightarrow> f v)"

definition get_coeff_hat :: "'f ridge \<Rightarrow> error + 'f list list" where
  "get_coeff_hat self = (case coeff_hat self of None \<Rightarrow> Inl AttributeError | Some C \<Rightarrow> Inr C)"

definition getitem :: "'a list list \<Rightarrow> nat \<Rightarrow> error + 'a list" where
  "getitem C i = (if i < length C then Inr (C ! i) else Inl IndexError)"

definition coeff_item :: "'f ridge \<Rightarrow> nat \<Rightarrow> error + 'f list" where
  "coeff_item self i = bind_err (get_coeff_hat self) (\<lambda>C. getitem C i)"

definition broadcast :: "('a \<Rightarrow> 'a \<Rightarrow> 'a) \<Rightarrow> 'a list \<Rightarrow> 'a list \<Rightarrow> error + 'a list" where
  "broadcast f u v =
     (if length u = length v then Inr (map2 f u v)
      else if length u = 1 then Inr (map (f (hd u)) v)
      else if length v = 1 then Inr (map (\<lambda>a. f a (hd v)) u)
      else Inl ValueError_broadcast)"

definition predict :: "'f floats \<Rightarrow> 'f ridge \<Rightarrow> 'f list \<Rightarrow> error + 'f list" where
  "predict fl self x =
     bind_err (coeff_item self 0) (\<lambda>c0.
     bind_err (coeff_item self 1) (\<lambda>c1.
     bind_err (broadcast (f_mul fl) c1 x) (\<lambda>t1.
     bind_err (broadcast (f_add fl) c0 t1) (\<lambda>s1.
     bind_err (coeff_item self 2) (\<lambda>c2.
     bind_err (broadcast (f_mul fl) c2 (map (f_square fl) x)) (\<lambda>t2.
     broadcast (f_add fl) s1 t2))))))"

text \<open>A sequence of calls of \<^verbatim>\<open>fit\<close> on one instance, and the condition that each of
  them raised.\<close>

fun after_fits ::
  "'f floats \<Rightarrow> 'f ridge \<Rightarrow> ('f scalar list \<times> 'f scalar list) list \<Rightarrow> 'f ridge" where
  "after_fits fl self [] = self"
| "after_fits fl self ((x_train, y_train) # calls) =
     after_fits fl (snd (fit fl self x_train y_train)) calls"

fun no_fit_succeeded ::
  "'f floats \<Rightarrow> 'f ridge \<Rightarrow> ('f scalar list \<times> 'f scalar list) list \<Rightarrow> bool" where
  "no_fit_succeeded fl self [] = True"
| "no_fit_succeeded fl self ((x_train, y_train) # calls) =
     (isl (fst (fit fl self x_train y_train)) \<and>
      no_fit_succeeded fl (snd (fit fl self x_train y_train)) calls)"

subsection \<open>The arrays \<^verbatim>\<open>fit\<close> builds, entry by entry\<close>

text \<open>The columns of the stacked matrix \<open>X\<close>; the matrix \<open>X\<^sup>T X + \<lambda> I\<close> as the code
  evaluates it, with its nine float64 sums and products written out; the array the
  inversion returns for a three-by-three argument; and the three coefficients, each an
  inner product with the converted targets.\<close>

definition columns :: "'f floats \<Rightarrow> 'f scalar list \<Rightarrow> 'f list list" where
  "columns fl xs =
     [map (\<lambda>x. f_one fl) xs, map (to_f64 fl) xs, map (\<lambda>x. to_f64 fl (square fl x)) xs]"

definition gram_entry :: "'f floats \<Rightarrow> 'f scalar \<Rightarrow> 'f scalar list \<Rightarrow> nat \<Rightarrow> nat \<Rightarrow> 'f" where
  "gram_entry fl lam xs i j =
     f_add fl (f_dot fl (columns fl xs ! i) (columns fl xs ! j))
       (f_mul fl (to_f64 fl lam) (if i = j then f_one fl else f_zero fl))"

definition gram :: "'f floats \<Rightarrow> 'f scalar \<Rightarrow> 'f scalar list \<Rightarrow> 'f list list" where
  "gram fl lam xs = map (\<lambda>i. map (\<lambda>j. gram_entry fl lam xs i j) [0, 1, 2]) [0, 1, 2]"

definition inverse3 :: "'f floats \<Rightarrow> 'f list list \<Rightarrow> 'f list list" where
  "inverse3 fl A = map (\<lambda>i. map (\<lambda>j. lu_inverse fl A i j) [0, 1, 2]) [0, 1, 2]"

definition coefficient :: "'f floats \<Rightarrow> 'f scalar \<Rightarrow> 'f scalar list \<Rightarrow> 'f scalar list \<Rightarrow> nat \<Rightarrow> 'f" where
  "coefficient fl lam xs ys i =
     f_dot fl (map (\<lambda>x. f_dot fl (inverse3 fl (gram fl lam xs) ! i) (x_bar fl x)) xs)
       (map (to_f64 fl) ys)"

subsection \<open>Arithmetic without rounding\<close>

text \<open>
  The operations of the reals: what float64 computes as long as every operand and every
  result is representable (small integers, dyadic fractions), which is the case in each
  concrete run below. The inversion is then the exact one, by the determinant (expansion
  along the first row) and the matrix of cofactors, and it fails exactly on the singular
  matrices. It is no model of float64 beyond such runs, and nothing is proved of the code
  through it but those runs; it also gives the matrix \<open>X\<^sup>T X + \<lambda> I\<close> of real numbers its
  meaning.
\<close>

definition del_nth :: "nat \<Rightarrow> 'a list \<Rightarrow> 'a list" where
  "del_nth i xs = take i xs @ drop (Suc i) xs"

fun det :: "real list list \<Rightarrow> real" where
  "det [] = 1"
| "det (r # rs) =
     sum_list (map (\<lambda>j. (- 1) ^ j * (r ! j) * det (map (del_nth j) rs)) [0..<length r])"

definition minor_m :: "real list list \<Rightarrow> nat \<Rightarrow> nat \<Rightarrow> real list list" where
  "minor_m A i j = map (del_nth j) (del_nth i A)"

definition exact :: "real floats" where
  "exact =
     \<lparr>f_zero = 0, f_one = 1, of_int64 = real_of_int, f_add = (+), f_mul = (*),
      f_square = (\<lambda>x. x * x), f_dot = (\<lambda>u v. sum_list (map2 (*) u v)),
      lu_singular = (\<lambda>A. det A = 0),
      lu_inverse = (\<lambda>A i j. (- 1) ^ (i + j) * det (minor_m A j i) / det A)\<rparr>"

section \<open>Basic facts about the array operations\<close>

lemma x_bar_eq: "x_bar fl x = [f_one fl, to_f64 fl x, to_f64 fl (square fl x)]"
  by (simp add: x_bar_def hstack_def atleast_1d_def)

lemma x_bar_fun: "x_bar fl = (\<lambda>x. [f_one fl, to_f64 fl x, to_f64 fl (square fl x)])"
  by (rule ext) (rule x_bar_eq)

lemma concat_single_rows: "concat (map (\<lambda>x. [f x]) xs) = map f xs"
  by (induction xs) simp_all

lemma vstack_x_bar:
  "xs \<noteq> [] \<Longrightarrow> vstack (map (\<lambda>x. atleast_2d (x_bar fl x)) xs) = Inr (map (x_bar fl) xs)"
  by (cases xs)
     (simp_all add: vstack_def atleast_2d_def ncols_def concat_single_rows x_bar_eq list_all_iff)

lemma vstack_targets:
  "ys \<noteq> [] \<Longrightarrow>
   vstack (map (\<lambda>y. atleast_2d_scalar (to_f64 fl y)) ys) = Inr (map (\<lambda>y. [to_f64 fl y]) ys)"
  by (cases ys)
     (simp_all add: vstack_def atleast_2d_scalar_def ncols_def concat_single_rows list_all_iff)

lemma vstack_Nil: "vstack [] = Inl ValueError_concatenate"
  by (simp add: vstack_def)

lemma transpose_rows3:
  "xs \<noteq> [] \<Longrightarrow> transpose_np (map (\<lambda>x. [f x, g x, h x]) xs) = [map f xs, map g xs, map h xs]"
proof (induction xs)
  case Nil
  then show ?case by simp
next
  case (Cons x xs)
  show ?case
  proof (cases xs)
    case Nil
    then show ?thesis by simp
  next
    case (Cons z zs)
    then have "transpose_np (map (\<lambda>x. [f x, g x, h x]) xs) = [map f xs, map g xs, map h xs]"
      using Cons.IH by simp
    then show ?thesis using Cons by simp
  qed
qed

lemma transpose_column: "ys \<noteq> [] \<Longrightarrow> transpose_np (map (\<lambda>y. [f y]) ys) = [map f ys]"
proof (induction ys)
  case Nil
  then show ?case by simp
next
  case (Cons y ys)
  show ?case
  proof (cases ys)
    case Nil
    then show ?thesis by simp
  next
    case (Cons z zs)
    then have "transpose_np (map (\<lambda>y. [f y]) ys) = [map f ys]"
      using Cons.IH by simp
    then show ?thesis using Cons by simp
  qed
qed

lemma map2_cons_maps: "map2 (#) (map f xs) (map g xs) = map (\<lambda>x. f x # g x) xs"
  by (induction xs) simp_all

lemma transpose_cols3:
  "transpose_np [map f xs, map g xs, map h xs] = map (\<lambda>x. [f x, g x, h x]) xs"
proof -
  have "map (\<lambda>v. [v]) (map h xs) = map (\<lambda>x. [h x]) xs" by simp
  then show ?thesis by (simp add: map2_cons_maps del: map_map)
qed

lemma transpose_design: "xs \<noteq> [] \<Longrightarrow> transpose_np (map (x_bar fl) xs) = columns fl xs"
  unfolding x_bar_fun columns_def by (rule transpose_rows3)

lemma transpose_columns: "transpose_np (columns fl xs) = map (x_bar fl) xs"
  unfolding x_bar_fun columns_def by (rule transpose_cols3)

lemma upt3: "[0..<3] = [0, 1, 2]"
  by (simp add: upt_rec numeral_eq_Suc)

lemma columns_nth:
  "columns fl xs ! 0 = map (\<lambda>x. f_one fl) xs"
  "columns fl xs ! 1 = map (to_f64 fl) xs"
  "columns fl xs ! 2 = map (\<lambda>x. to_f64 fl (square fl x)) xs"
  by (simp_all add: columns_def)

lemma gram_computed:
  "xs \<noteq> [] \<Longrightarrow>
   madd fl (mat_mul fl (transpose_np (map (x_bar fl) xs)) (map (x_bar fl) xs))
     (smul fl (to_f64 fl lam) (identity fl 3)) = gram fl lam xs"
  unfolding transpose_design mat_mul_def
  by (simp add: columns_nth columns_def madd_def smul_def identity_def upt3 gram_def gram_entry_def)

lemma linalg_inv_gram:
  "linalg_inv fl (gram fl lam xs) =
     (if lu_singular fl (gram fl lam xs) then Inl LinAlgError
      else Inr (inverse3 fl (gram fl lam xs)))"
proof -
  have l: "length (gram fl lam xs) = 3" by (simp add: gram_def)
  have s: "is_square (gram fl lam xs)" by (simp add: is_square_def gram_def)
  show ?thesis unfolding linalg_inv_def l upt3 inverse3_def using s by simp
qed

lemma inverse3_rows:
  "inverse3 fl A = [inverse3 fl A ! 0, inverse3 fl A ! 1, inverse3 fl A ! 2]"
  by (simp add: inverse3_def)

lemma ncols_inverse3: "ncols (inverse3 fl A) = 3"
  by (simp add: inverse3_def ncols_def)

lemma coefficients_computed:
  assumes "ys \<noteq> []"
  shows "mat_mul fl (mat_mul fl (inverse3 fl A) (columns fl xs)) (map (\<lambda>y. [to_f64 fl y]) ys) =
     map (\<lambda>i. [f_dot fl (map (\<lambda>x. f_dot fl (inverse3 fl A ! i) (x_bar fl x)) xs)
                   (map (to_f64 fl) ys)]) [0, 1, 2]"
proof -
  have T2: "transpose_np (map (\<lambda>y. [to_f64 fl y]) ys) = [map (to_f64 fl) ys]"
    using assms by (rule transpose_column)
  show ?thesis
    unfolding mat_mul_def transpose_columns T2
    by (subst inverse3_rows) (simp add: comp_def)
qed

lemma ncols_product:
  "ncols (mat_mul fl (inverse3 fl A) (columns fl xs)) = length xs"
  unfolding mat_mul_def transpose_columns
  by (subst inverse3_rows) (simp add: ncols_def)

lemma fit_coeff_cases:
  "fit_coeff fl lam xs ys =
     (if xs = [] \<or> ys = [] then Inl ValueError_concatenate
      else if lu_singular fl (gram fl lam xs) then Inl LinAlgError
      else if length xs \<noteq> length ys then Inl ValueError_matmul
      else Inr (map (\<lambda>i. [coefficient fl lam xs ys i]) [0, 1, 2]))"
proof (cases "xs = [] \<or> ys = []")
  case True
  then show ?thesis
    by (cases "xs = []") (auto simp: fit_coeff_def vstack_Nil vstack_x_bar)
next
  case False
  then have ne: "xs \<noteq> []" "ys \<noteq> []" by simp_all
  obtain x xs' where xs: "xs = x # xs'" using ne by (cases xs) auto
  have nc: "ncols (map (x_bar fl) xs) = 3"
    by (simp add: xs ncols_def x_bar_eq)
  have XT: "transpose_np (map (x_bar fl) xs) = columns fl xs"
    using ne(1) by (rule transpose_design)
  have m1: "matmul fl (transpose_np (map (x_bar fl) xs)) (map (x_bar fl) xs) =
        Inr (mat_mul fl (transpose_np (map (x_bar fl) xs)) (map (x_bar fl) xs))"
    by (simp add: matmul_def XT ncols_def columns_def)
  have step: "fit_coeff fl lam xs ys =
     (case linalg_inv fl (gram fl lam xs) of
        Inl e \<Rightarrow> Inl e
      | Inr XI \<Rightarrow> (case matmul fl XI (transpose_np (map (x_bar fl) xs)) of
           Inl e \<Rightarrow> Inl e | Inr P \<Rightarrow> matmul fl P (map (\<lambda>y. [to_f64 fl y]) ys)))"
    unfolding fit_coeff_def
    by (simp add: vstack_x_bar[OF ne(1)] vstack_targets[OF ne(2)] m1 nc gram_computed[OF ne(1)]
        Let_def)
  have len: "length (columns fl xs) = 3" by (simp add: columns_def)
  show ?thesis
    unfolding step XT linalg_inv_gram
    using ne
    by (simp add: matmul_def ncols_inverse3 len ncols_product coefficients_computed
        coefficient_def)
qed

section \<open>The result of \<^verbatim>\<open>fit\<close>\<close>

lemma fit_coeff_InrD:
  assumes "fit_coeff fl lam xs ys = Inr C"
  shows "xs \<noteq> []" "length xs = length ys" "\<not> lu_singular fl (gram fl lam xs)"
    "C = [[coefficient fl lam xs ys 0], [coefficient fl lam xs ys 1], [coefficient fl lam xs ys 2]]"
  using assms unfolding fit_coeff_cases by (auto split: if_splits)

lemma fit_InrD:
  assumes "fst (fit fl self xs ys) = Inr v"
  obtains C where "fit_coeff fl (lambda self) xs ys = Inr C" "v = PyNone"
    "snd (fit fl self xs ys) = self\<lparr>coeff_hat := Some C\<rparr>"
  using assms unfolding fit_def by (auto split: sum.splits)

lemma fit_InlD:
  assumes "fst (fit fl self xs ys) = Inl e"
  shows "fit_coeff fl (lambda self) xs ys = Inl e" "snd (fit fl self xs ys) = self"
  using assms unfolding fit_def by (auto split: sum.splits)

lemma fit_cases:
  "fit fl self xs ys =
     (if xs = [] \<or> ys = [] then (Inl ValueError_concatenate, self)
      else if lu_singular fl (gram fl (lambda self) xs) then (Inl LinAlgError, self)
      else if length xs \<noteq> length ys then (Inl ValueError_matmul, self)
      else (Inr PyNone,
        self\<lparr>coeff_hat := Some (map (\<lambda>i. [coefficient fl (lambda self) xs ys i]) [0, 1, 2])\<rparr>))"
  by (simp add: fit_def fit_coeff_cases)

lemma lambda_after_fit: "lambda (snd (fit fl self xs ys)) = lambda self"
  by (simp add: fit_def split: sum.splits)

lemma lambda_after_fits: "lambda (after_fits fl self calls) = lambda self"
  by (induction fl self calls rule: after_fits.induct) (simp_all add: lambda_after_fit)

lemma predict_unfitted: "coeff_hat self = None \<Longrightarrow> predict fl self x = Inl AttributeError"
  by (simp add: predict_def coeff_item_def get_coeff_hat_def bind_err_def)

lemma broadcast_single_eq: "broadcast f [c] v = Inr (map (f c) v)"
  by (cases v rule: list.exhaust[case_names Nil Cons]; cases "tl v")
     (auto simp: broadcast_def)

lemma unfitted_after_failures:
  "coeff_hat self = None \<Longrightarrow> no_fit_succeeded fl self calls \<Longrightarrow>
   coeff_hat (after_fits fl self calls) = None"
proof (induction fl self calls rule: after_fits.induct)
  case (1 fl self)
  then show ?case by simp
next
  case (2 fl self x_train y_train calls)
  from "2.prems"(2) obtain e where e: "fst (fit fl self x_train y_train) = Inl e"
    by (cases "fst (fit fl self x_train y_train)") auto
  then have "snd (fit fl self x_train y_train) = self" by (rule fit_InlD)
  with 2 show ?case by simp
qed

lemma fit_inversion_error:
  assumes "xs \<noteq> []" "ys \<noteq> []" "lu_singular fl (gram fl (lambda self) xs)"
  shows "fit fl self xs ys = (Inl LinAlgError, self)"
  using assms by (simp add: fit_cases)

lemma fit_mismatch_error:
  assumes "length xs \<noteq> length ys"
  shows "fit fl self xs ys =
     (Inl (if xs = [] \<or> ys = [] then ValueError_concatenate
           else if lu_singular fl (gram fl (lambda self) xs) then LinAlgError
           else ValueError_matmul), self)"
  using assms by (simp add: fit_cases)


section \<open>Concrete runs\<close>



lemma fit_run:
  "fit exact (Ridge_init (Float64 2)) [Float64 0, Float64 0] [Float64 1, Float64 3] =
     (Inr PyNone, \<lparr>lambda = Float64 2, coeff_hat = Some [[1], [0], [0]]\<rparr>)"
  by code_simp

lemma fit_run_singular:
  "fit exact (Ridge_init (Float64 0)) [Float64 1] [Float64 1, Float64 2] =
     (Inl LinAlgError, Ridge_init (Float64 0))"
  by code_simp

lemma fit_run_mismatch:
  "fit exact (Ridge_init (Float64 2)) [Float64 0, Float64 0] [Float64 1] =
     (Inl ValueError_matmul, Ridge_init (Float64 2))"
  by code_simp









section \<open>Properties of the estimator\<close>







text \<open>C4 as stated fails: a completed call evaluates to \<^verbatim>\<open>None\<close>, not to the
  coefficient array.\<close>

theorem fit_return_counterexample:
  "fst (fit exact (Ridge_init (Float64 2)) [Float64 0, Float64 0] [Float64 1, Float64 3]) =
     Inr PyNone \<and>
   fst (fit exact (Ridge_init (Float64 2)) [Float64 0, Float64 0] [Float64 1, Float64 3]) \<noteq>
     Inr (PyArray [[1], [0], [0]]) \<and>
   coeff_hat (snd (fit exact (Ridge_init (Float64 2)) [Float64 0, Float64 0]
     [Float64 1, Float64 3])) = Some [[1], [0], [0]]"
  by (simp add: fit_run)

text \<open>C4, amended: every call of \<^verbatim>\<open>fit\<close> that completes returns \<^verbatim>\<open>None\<close> and stores
  the fitted coefficients, an array of three rows, in \<^verbatim>\<open>_coeff_hat\<close>, where the caller
  reads them.\<close>

theorem fit_stores_coefficients:
  assumes "fst (fit fl self x_train y_train) = Inr v"
  shows "v = PyNone \<and>
    (\<exists>C. fit_coeff fl (lambda self) x_train y_train = Inr C \<and> length C = 3 \<and>
         coeff_hat (snd (fit fl self x_train y_train)) = Some C \<and>
         get_coeff_hat (snd (fit fl self x_train y_train)) = Inr C)"
proof -
  from assms obtain C where C: "fit_coeff fl (lambda self) x_train y_train = Inr C" "v = PyNone"
    "snd (fit fl self x_train y_train) = self\<lparr>coeff_hat := Some C\<rparr>"
    by (rule fit_InrD)
  from fit_coeff_InrD(4)[OF C(1)] have "length C = 3" by simp
  with C show ?thesis by (simp add: get_coeff_hat_def)
qed

theorem fit_stores_coefficients_witness:
  "fst (fit exact (Ridge_init (Float64 2)) [Float64 0, Float64 0] [Float64 1, Float64 3]) =
     Inr PyNone \<and>
   get_coeff_hat (snd (fit exact (Ridge_init (Float64 2)) [Float64 0, Float64 0]
     [Float64 1, Float64 3])) = Inr [[1], [0], [0]]"
proof -
  have h: "fst (fit exact (Ridge_init (Float64 2)) [Float64 0, Float64 0]
      [Float64 1, Float64 3]) = Inr PyNone"
    by (simp add: fit_run)
  from fit_stores_coefficients[OF h] show ?thesis
    by (simp add: fit_run get_coeff_hat_def)
qed

text \<open>C6: on an instance on which no call of \<^verbatim>\<open>fit\<close> has completed, evaluating the
  prediction raises (\<^verbatim>\<open>AttributeError\<close>: the coefficients were never assigned); once a
  call of \<^verbatim>\<open>fit\<close> has completed, the prediction evaluates to a value.\<close>

theorem predict_requires_fit:
  "(no_fit_succeeded fl (Ridge_init lam) calls \<longrightarrow>
      predict fl (after_fits fl (Ridge_init lam) calls) x = Inl AttributeError) \<and>
   (fst (fit fl self x_train y_train) = Inr v \<longrightarrow>
      (\<exists>p. predict fl (snd (fit fl self x_train y_train)) x = Inr p))"
proof (intro conjI impI)
  assume "no_fit_succeeded fl (Ridge_init lam) calls"
  then have "coeff_hat (after_fits fl (Ridge_init lam) calls) = None"
    by (intro unfitted_after_failures) (simp_all add: Ridge_init_def)
  then show "predict fl (after_fits fl (Ridge_init lam) calls) x = Inl AttributeError"
    by (rule predict_unfitted)
next
  assume "fst (fit fl self x_train y_train) = Inr v"
  then obtain C where C: "fit_coeff fl (lambda self) x_train y_train = Inr C"
    "snd (fit fl self x_train y_train) = self\<lparr>coeff_hat := Some C\<rparr>"
    by (rule fit_InrD)
  from C(1) obtain t0 t1 t2 where "C = [[t0], [t1], [t2]]"
    using fit_coeff_InrD(4) by blast
  with C(2) show "\<exists>p. predict fl (snd (fit fl self x_train y_train)) x = Inr p"
    by (simp add: predict_def coeff_item_def get_coeff_hat_def bind_err_def getitem_def
        broadcast_single_eq broadcast_def)
qed

theorem predict_requires_fit_witness:
  "no_fit_succeeded exact (Ridge_init (Float64 0))
     [([Float64 1], [Float64 1, Float64 2]), ([], [Float64 3])] \<and>
   predict exact (after_fits exact (Ridge_init (Float64 0))
     [([Float64 1], [Float64 1, Float64 2]), ([], [Float64 3])]) [2] = Inl AttributeError \<and>
   fst (fit exact (Ridge_init (Float64 2)) [Float64 0, Float64 0] [Float64 1, Float64 3]) =
     Inr PyNone \<and>
   predict exact (snd (fit exact (Ridge_init (Float64 2)) [Float64 0, Float64 0]
     [Float64 1, Float64 3])) [2, 3] = Inr [1, 1]"
proof -
  have h1: "no_fit_succeeded exact (Ridge_init (Float64 0))
     [([Float64 1], [Float64 1, Float64 2]), ([], [Float64 3])]"
    by code_simp
  have h2: "fst (fit exact (Ridge_init (Float64 2)) [Float64 0, Float64 0]
      [Float64 1, Float64 3]) = Inr PyNone"
    by (simp add: fit_run)
  have v: "predict exact (snd (fit exact (Ridge_init (Float64 2)) [Float64 0, Float64 0]
     [Float64 1, Float64 3])) [2, 3] = Inr [1, 1]"
    by code_simp
  from predict_requires_fit[of exact "Float64 0"
      "[([Float64 1], [Float64 1, Float64 2]), ([], [Float64 3])]" "[2]"] h1 h2 v
  show ?thesis by simp
qed

text \<open>C7 as stated fails: with sequences of different lengths the matrices are built
  and the inversion is attempted before any shapes are compared, and its error is the
  one raised.\<close>

theorem fit_length_mismatch_counterexample:
  "length [Float64 (1 :: real)] \<noteq> length [Float64 (1 :: real), Float64 2] \<and>
   fit exact (Ridge_init (Float64 0)) [Float64 1] [Float64 1, Float64 2] =
     (Inl LinAlgError, Ridge_init (Float64 0)) \<and>
   fst (fit exact (Ridge_init (Float64 0)) [Float64 1] [Float64 1, Float64 2]) \<noteq>
     Inl ValueError_matmul"
  by (simp add: fit_run_singular)

text \<open>C7, amended: for every pair of input sequences whose lengths differ, \<^verbatim>\<open>fit\<close>
  fails with an error and leaves the estimator state unchanged; the error need not be a
  shape error, and it is not raised before the computation begins.\<close>

theorem fit_length_mismatch:
  assumes "length x_train \<noteq> length y_train"
  shows "\<exists>e. fit fl self x_train y_train = (Inl e, self)"
  using assms by (simp add: fit_cases)

theorem fit_length_mismatch_witness:
  "length [Float64 (0 :: real), Float64 0] \<noteq> length [Float64 (1 :: real)] \<and>
   (\<exists>e. fit exact (Ridge_init (Float64 2)) [Float64 0, Float64 0] [Float64 1] =
      (Inl e, Ridge_init (Float64 2))) \<and>
   fit exact (Ridge_init (Float64 2)) [Float64 0, Float64 0] [Float64 1] =
     (Inl ValueError_matmul, Ridge_init (Float64 2))"
proof -
  have 1: "length [Float64 (0 :: real), Float64 0] \<noteq> length [Float64 (1 :: real)]" by simp
  from fit_length_mismatch[OF 1, of exact "Ridge_init (Float64 2)"] fit_run_mismatch
  show ?thesis by simp
qed

text \<open>C9: \<^verbatim>\<open>fit\<close> changes no attribute but \<^verbatim>\<open>_coeff_hat\<close>; the outcome of a call does
  not depend on the coefficients stored before, which a completed call replaces and a
  failed call keeps; \<^verbatim>\<open>_lambda\<close> keeps the value given at construction through any
  sequence of calls.\<close>

theorem fit_frame:
  "lambda (snd (fit fl self x_train y_train)) = lambda self \<and>
   snd (fit fl self x_train y_train) =
     self\<lparr>coeff_hat := coeff_hat (snd (fit fl self x_train y_train))\<rparr> \<and>
   fst (fit fl (self\<lparr>coeff_hat := old\<rparr>) x_train y_train) = fst (fit fl self x_train y_train) \<and>
   coeff_hat (snd (fit fl (self\<lparr>coeff_hat := old\<rparr>) x_train y_train)) =
     (if isl (fst (fit fl self x_train y_train)) then old
      else coeff_hat (snd (fit fl self x_train y_train))) \<and>
   lambda (after_fits fl (Ridge_init lam) calls) = lam"
  by (simp add: fit_def lambda_after_fits Ridge_init_def split: sum.splits)

theorem fit_frame_witness:
  "lambda (snd (fit exact (Ridge_init (Float64 2)) [Float64 0, Float64 0]
     [Float64 1, Float64 3])) = Float64 2 \<and>
   coeff_hat (snd (fit exact ((Ridge_init (Float64 2))\<lparr>coeff_hat := Some [[5], [6], [7]]\<rparr>)
     [Float64 0, Float64 0] [Float64 1, Float64 3])) = Some [[1], [0], [0]]"
  using fit_frame[of exact "Ridge_init (Float64 2)" "[Float64 0, Float64 0]"
      "[Float64 1, Float64 3]" "Some [[5], [6], [7]]" "Float64 2" "[]"]
  by (simp add: fit_run)

text \<open>C10: after every call of \<^verbatim>\<open>fit\<close> that completes, the stored coefficients are a
  two-dimensional array of three rows and one column; indexing it at 0, 1 or 2 yields a
  one-element array, not a scalar.\<close>

theorem coeff_hat_column:
  assumes "fst (fit fl self x_train y_train) = Inr v"
  shows "\<exists>t0 t1 t2.
    coeff_hat (snd (fit fl self x_train y_train)) = Some [[t0], [t1], [t2]] \<and>
    coeff_item (snd (fit fl self x_train y_train)) 0 = Inr [t0] \<and>
    coeff_item (snd (fit fl self x_train y_train)) 1 = Inr [t1] \<and>
    coeff_item (snd (fit fl self x_train y_train)) 2 = Inr [t2]"
proof -
  from assms obtain C where C: "fit_coeff fl (lambda self) x_train y_train = Inr C"
    "snd (fit fl self x_train y_train) = self\<lparr>coeff_hat := Some C\<rparr>"
    by (rule fit_InrD)
  from C(1) obtain t0 t1 t2 where "C = [[t0], [t1], [t2]]"
    using fit_coeff_InrD(4) by blast
  with C(2) show ?thesis
    by (simp add: coeff_item_def get_coeff_hat_def bind_err_def getitem_def)
qed

theorem coeff_hat_column_witness:
  "fst (fit exact (Ridge_init (Float64 2)) [Float64 0, Float64 0] [Float64 1, Float64 3]) =
     Inr PyNone \<and>
   coeff_item (snd (fit exact (Ridge_init (Float64 2)) [Float64 0, Float64 0]
     [Float64 1, Float64 3])) 0 = Inr [1]"
proof -
  have h: "fst (fit exact (Ridge_init (Float64 2)) [Float64 0, Float64 0]
      [Float64 1, Float64 3]) = Inr PyNone"
    by (simp add: fit_run)
  from coeff_hat_column[OF h] show ?thesis
    by (auto simp: fit_run)
qed

end
